theory Spec2Isabelle
  imports Main "HOL-Library.Word"
begin

section \<open>The Go values importer.go works with\<close>

text \<open>
  An \<^verbatim>\<open>error\<close> of Go is modelled by its message; a function that returns
  \<^verbatim>\<open>(T, error)\<close> returns a pair whose second component is \<open>None\<close> for
  \<^verbatim>\<open>nil\<close>. A pointer is \<open>NilPtr\<close> (nil) or the address of an object in a heap.
\<close>

datatype error = Error string

datatype ptr = NilPtr | Ref nat

text \<open>
  How a call can stop without returning. \<open>NilPointerDereference\<close> is the run-time
  panic of Go (invalid memory address or nil pointer dereference), the only one
  importer.go can raise by itself. \<open>DocumentNotBoundError\<close> and
  \<open>UnknownTemplateError\<close> are the error kinds the specification names for a query on an
  unbound document and for a placement of an unknown template; no line of importer.go
  produces them, they are here so that the specification's sentences can be written down.
\<close>

datatype failure = NilPointerDereference | DocumentNotBoundError | UnknownTemplateError

type_synonym float64 = "64 word"

type_synonym page_boxes = "int \<rightharpoonup> (string \<rightharpoonup> (string \<rightharpoonup> float64))"

text \<open>The object id of the Writer; importer.go reads its fields \<^verbatim>\<open>id\<close> and \<^verbatim>\<open>hash\<close>.\<close>

record PdfObjectId =
  id' :: int
  hash :: string

text \<open>
  Modelled from the spec: the PdfWriter struct of writer.go, which is not under src/.
  Section 6 gives the Writer a template-id offset (\<^verbatim>\<open>setTemplateIdOffset\<close>) and a
  hash-id switch (\<^verbatim>\<open>setUseHashIds\<close>); everything else the Writer keeps is \<open>rest\<close>.
\<close>

record 'w PdfWriter =
  tpl_id_offset :: int
  use_hash :: bool
  rest :: 'w

text \<open>Modelled from the spec: \<^verbatim>\<open>SetTplIdOffset\<close> of writer.go (not under src/), section 6.\<close>

definition SetTplIdOffset :: "'w PdfWriter \<Rightarrow> int \<Rightarrow> 'w PdfWriter" where
  "SetTplIdOffset this n = this\<lparr>tpl_id_offset := n\<rparr>"

text \<open>Modelled from the spec: \<^verbatim>\<open>SetUseHash\<close> of writer.go (not under src/), section 6.\<close>

definition SetUseHash :: "'w PdfWriter \<Rightarrow> bool \<Rightarrow> 'w PdfWriter" where
  "SetUseHash this b = this\<lparr>use_hash := b\<rparr>"

text \<open>
  The rest of reader.go and writer.go is a parameter of the model: the constructors and
  the methods importer.go calls, on the state \<open>'r\<close> of a PdfReader and \<open>'w PdfWriter\<close> of
  a PdfWriter. A method returns its Go results and the receiver as the call leaves it; a
  Writer method that is handed the Reader gets the object behind the pointer (\<open>None\<close>
  for a nil pointer) and returns it as the call leaves it. A map the Writer returns is
  the list of its entries in the order \<^verbatim>\<open>range\<close> visits them.
\<close>

record ('r, 'w) Collaborators =
  NewPdfReader :: "string \<Rightarrow> error + 'r"
  NewPdfReaderFromStream :: "nat \<Rightarrow> error + 'r"
  NewPdfWriter :: "string \<Rightarrow> error + 'w PdfWriter"
  getNumPages :: "'r \<Rightarrow> (int \<times> error option) \<times> 'r"
  getAllPageBoxes :: "'r \<Rightarrow> float64 \<Rightarrow> (page_boxes \<times> error option) \<times> 'r"
  PdfWriter_ImportPage ::
    "'w PdfWriter \<Rightarrow> 'r option \<Rightarrow> int \<Rightarrow> string \<Rightarrow> (int \<times> error option) \<times> 'w PdfWriter \<times> 'r option"
  PdfWriter_SetNextObjectID :: "'w PdfWriter \<Rightarrow> int \<Rightarrow> 'w PdfWriter"
  PdfWriter_PutFormXobjects ::
    "'w PdfWriter \<Rightarrow> 'r option \<Rightarrow>
       ((string \<times> PdfObjectId) list \<times> error option) \<times> 'w PdfWriter \<times> 'r option"
  PdfWriter_GetImportedObjects :: "'w PdfWriter \<Rightarrow> (PdfObjectId \<times> string) list \<times> 'w PdfWriter"
  PdfWriter_GetImportedObjHashPos ::
    "'w PdfWriter \<Rightarrow> (PdfObjectId \<times> (int \<rightharpoonup> string)) list \<times> 'w PdfWriter"
  PdfWriter_UseTemplate ::
    "'w PdfWriter \<Rightarrow> int \<Rightarrow> float64 \<Rightarrow> float64 \<Rightarrow> float64 \<Rightarrow> float64 \<Rightarrow>
       (string \<times> float64 \<times> float64 \<times> float64 \<times> float64) \<times> 'w PdfWriter"

section \<open>The Importer and the objects behind its pointers\<close>

record TplInfo =
  SourceFile :: string
  Writer :: ptr
  TemplateId :: int

text \<open>
  The struct as importer.go declares it. A Go map is a partial function; the maps are
  the non-nil ones \<^verbatim>\<open>init\<close> makes. \<^verbatim>\<open>tplMap\<close> holds pointers to TplInfo
  values that nothing else refers to, so the value stands for the pointer and a missing
  key for the nil pointer a lookup returns.
\<close>

record Importer =
  sourceFile :: string
  readers :: "string \<rightharpoonup> ptr"
  writers :: "string \<rightharpoonup> ptr"
  tplMap :: "int \<rightharpoonup> TplInfo"
  tplN :: int
  writer :: ptr
  importedPages :: "string \<rightharpoonup> int"

text \<open>
  The state of a run: the Importer, and the PdfReader and PdfWriter objects its pointers
  refer to. \<open>Ref a\<close> is the object at index \<open>a\<close> of its heap; a new object goes to the
  end.
\<close>

record ('r, 'w) World =
  importer :: Importer
  reader_heap :: "'r list"
  writer_heap :: "'w PdfWriter list"

text \<open>
  The object behind a pointer. An address outside the heap cannot arise in Go; it is
  read like nil, so that the functions are total, and \<open>heap_ok\<close> below says it does not
  arise.
\<close>

definition deref :: "'a list \<Rightarrow> ptr \<Rightarrow> 'a option" where
  "deref h p = (case p of NilPtr \<Rightarrow> None | Ref a \<Rightarrow> if a < length h then Some (h ! a) else None)"

definition assign :: "'a list \<Rightarrow> ptr \<Rightarrow> 'a \<Rightarrow> 'a list" where
  "assign h p v = (case p of NilPtr \<Rightarrow> h | Ref a \<Rightarrow> h[a := v])"

definition assign_opt :: "'a list \<Rightarrow> ptr \<Rightarrow> 'a option \<Rightarrow> 'a list" where
  "assign_opt h p vo = (case vo of None \<Rightarrow> h | Some v \<Rightarrow> assign h p v)"

definition alloc :: "'a list \<Rightarrow> 'a \<Rightarrow> ptr \<times> 'a list" where
  "alloc h v = (Ref (length h), h @ [v])"

section \<open>Formatting\<close>

text \<open>
  \<^verbatim>\<open>fmt.Sprintf("%s-%04d", sourceFile, pageno)\<close>: the decimal digits of the number,
  padded with zeros to four characters, the sign counted in the width and written before
  the zeros.
\<close>

definition digit :: "nat \<Rightarrow> char" where
  "digit d = ''0123456789abcdef'' ! d"

function dec :: "nat \<Rightarrow> string" where
  "dec n = (if n < 10 then [digit n] else dec (n div 10) @ [digit (n mod 10)])"
  by pat_completeness auto
termination
  by (relation "measure id") auto

definition pad0 :: "nat \<Rightarrow> string \<Rightarrow> string" where
  "pad0 w s = replicate (w - length s) CHR ''0'' @ s"

definition fmt04d :: "int \<Rightarrow> string" where
  "fmt04d n = (if n < 0 then CHR ''-'' # pad0 3 (dec (nat (- n))) else pad0 4 (dec (nat n)))"

definition pageNameNumber :: "string \<Rightarrow> int \<Rightarrow> string" where
  "pageNameNumber f pageno = f @ ''-'' @ fmt04d pageno"

text \<open>
  \<^verbatim>\<open>fmt.Sprintf("%v", rs)\<close> for a pointer: its address in hexadecimal, or
  \<^verbatim>\<open><nil>\<close>.
\<close>

function hex :: "nat \<Rightarrow> string" where
  "hex n = (if n < 16 then [digit n] else hex (n div 16) @ [digit (n mod 16)])"
  by pat_completeness auto
termination
  by (relation "measure id") auto

definition fmt_v :: "ptr \<Rightarrow> string" where
  "fmt_v p = (case p of NilPtr \<Rightarrow> ''<nil>'' | Ref a \<Rightarrow> ''0x'' @ hex a)"

text \<open>
  \<^verbatim>\<open>importer.tplN++\<close> on the 64-bit \<^verbatim>\<open>int\<close> of Go: past the largest value the
  counter wraps to the smallest.
\<close>

definition max_int :: int where
  "max_int = 9223372036854775807"

definition incr :: "int \<Rightarrow> int" where
  "incr n = (if n = max_int then - max_int - 1 else n + 1)"

section \<open>importer.go\<close>

definition GetReaderForFile :: "Importer \<Rightarrow> string \<Rightarrow> ptr" where
  "GetReaderForFile imp file = (case readers imp file of Some p \<Rightarrow> p | None \<Rightarrow> NilPtr)"

definition GetWriterForFile :: "Importer \<Rightarrow> string \<Rightarrow> ptr" where
  "GetWriterForFile imp file = (case writers imp file of Some p \<Rightarrow> p | None \<Rightarrow> NilPtr)"

definition GetReader :: "Importer \<Rightarrow> ptr" where
  "GetReader imp = GetReaderForFile imp (sourceFile imp)"

definition GetWriter :: "Importer \<Rightarrow> ptr" where
  "GetWriter imp = GetWriterForFile imp (sourceFile imp)"

text \<open>
  \<^verbatim>\<open>NewImporter\<close> with \<^verbatim>\<open>init\<close>: empty maps, and a Writer of its own whose
  construction error is dropped (the pointer is nil then).
\<close>

definition NewImporter :: "('r, 'w) Collaborators \<Rightarrow> ('r, 'w) World" where
  "NewImporter env =
     (let (p, wh) = (case NewPdfWriter env [] of
                       Inl err \<Rightarrow> (NilPtr, [])
                     | Inr w \<Rightarrow> alloc [] w)
      in \<lparr>importer = \<lparr>sourceFile = [], readers = Map.empty, writers = Map.empty,
                       tplMap = Map.empty, tplN = 0, writer = p,
                       importedPages = Map.empty\<rparr>,
          reader_heap = [], writer_heap = wh\<rparr>)"

text \<open>
  Lines 83 to 94 of \<^verbatim>\<open>SetSourceFile\<close>, which \<^verbatim>\<open>SetSourceStream\<close> repeats
  (lines 109 to 120): the Writer of the active document, made on first use and given the
  counter as its template-id offset.
\<close>

definition instantiate_writer ::
  "('r, 'w) Collaborators \<Rightarrow> ('r, 'w) World \<Rightarrow> error option \<times> ('r, 'w) World" where
  "instantiate_writer env s =
     (let imp = importer s in
      if writers imp (sourceFile imp) = None then
        (case NewPdfWriter env [] of
           Inl err \<Rightarrow> (Some err, s)
         | Inr w \<Rightarrow>
             let (p, wh) = alloc (writer_heap s) (SetTplIdOffset w (tplN imp))
             in (None, s\<lparr>importer := imp\<lparr>writers := (writers imp)(sourceFile imp \<mapsto> p)\<rparr>,
                          writer_heap := wh\<rparr>))
      else (None, s))"

definition SetSourceFile ::
  "('r, 'w) Collaborators \<Rightarrow> ('r, 'w) World \<Rightarrow> string \<Rightarrow> error option \<times> ('r, 'w) World" where
  "SetSourceFile env s f =
     (let s1 = s\<lparr>importer := (importer s)\<lparr>sourceFile := f\<rparr>\<rparr>;
          imp = importer s1
      in if readers imp (sourceFile imp) = None then
           (case NewPdfReader env (sourceFile imp) of
              Inl err \<Rightarrow> (Some err, s1)
            | Inr r \<Rightarrow>
                let (p, rh) = alloc (reader_heap s1) r
                in instantiate_writer env
                     (s1\<lparr>importer := imp\<lparr>readers := (readers imp)(sourceFile imp \<mapsto> p)\<rparr>,
                         reader_heap := rh\<rparr>))
         else instantiate_writer env s1)"

text \<open>
  \<^verbatim>\<open>rs\<close> is a pointer into the caller's memory; \<^verbatim>\<open>*rs\<close> on a nil pointer
  panics, and happens only when the key has no Reader yet.
\<close>

definition SetSourceStream ::
  "('r, 'w) Collaborators \<Rightarrow> ('r, 'w) World \<Rightarrow> ptr \<Rightarrow>
     failure + (error option \<times> ('r, 'w) World)" where
  "SetSourceStream env s rs =
     (let s1 = s\<lparr>importer := (importer s)\<lparr>sourceFile := fmt_v rs\<rparr>\<rparr>;
          imp = importer s1
      in if readers imp (sourceFile imp) = None then
           (case rs of
              NilPtr \<Rightarrow> Inl NilPointerDereference
            | Ref a \<Rightarrow>
                (case NewPdfReaderFromStream env a of
                   Inl err \<Rightarrow> Inr (Some err, s1)
                 | Inr r \<Rightarrow>
                     let (p, rh) = alloc (reader_heap s1) r
                     in Inr (instantiate_writer env
                          (s1\<lparr>importer := imp\<lparr>readers := (readers imp)(sourceFile imp \<mapsto> p)\<rparr>,
                              reader_heap := rh\<rparr>))))
         else Inr (instantiate_writer env s1))"

text \<open>
  A method of PdfReader or PdfWriter works on the fields of its receiver, so a call
  through a pointer with no object behind it panics.
\<close>

definition GetNumPages ::
  "('r, 'w) Collaborators \<Rightarrow> ('r, 'w) World \<Rightarrow> failure + ((int \<times> error option) \<times> ('r, 'w) World)" where
  "GetNumPages env s =
     (let rp = GetReader (importer s) in
      case deref (reader_heap s) rp of
        None \<Rightarrow> Inl NilPointerDereference
      | Some r \<Rightarrow>
          let ((result, err), r') = getNumPages env r;
              s' = s\<lparr>reader_heap := assign (reader_heap s) rp r'\<rparr>
          in (case err of
                Some e \<Rightarrow> Inr ((0, Some e), s')
              | None \<Rightarrow> Inr ((result, None), s')))"

definition one_float :: float64 where
  "one_float = 0x3FF0000000000000"

definition GetPageSizes ::
  "('r, 'w) Collaborators \<Rightarrow> ('r, 'w) World \<Rightarrow>
     failure + ((page_boxes option \<times> error option) \<times> ('r, 'w) World)" where
  "GetPageSizes env s =
     (let rp = GetReader (importer s) in
      case deref (reader_heap s) rp of
        None \<Rightarrow> Inl NilPointerDereference
      | Some r \<Rightarrow>
          let ((result, err), r') = getAllPageBoxes env r one_float;
              s' = s\<lparr>reader_heap := assign (reader_heap s) rp r'\<rparr>
          in (case err of
                Some e \<Rightarrow> Inr ((None, Some e), s')
              | None \<Rightarrow> Inr ((Some result, None), s')))"

definition ImportPage ::
  "('r, 'w) Collaborators \<Rightarrow> ('r, 'w) World \<Rightarrow> int \<Rightarrow> string \<Rightarrow>
     failure + ((int \<times> error option) \<times> ('r, 'w) World)" where
  "ImportPage env s pageno box =
     (let imp = importer s;
          key = pageNameNumber (sourceFile imp) pageno
      in case importedPages imp key of
           Some n \<Rightarrow> Inr ((n, None), s)
         | None \<Rightarrow>
             (case deref (writer_heap s) (GetWriter imp) of
                None \<Rightarrow> Inl NilPointerDereference
              | Some w \<Rightarrow>
                  let ((res, err), w', r') =
                        PdfWriter_ImportPage env w (deref (reader_heap s) (GetReader imp)) pageno box;
                      s1 = s\<lparr>reader_heap := assign_opt (reader_heap s) (GetReader imp) r',
                             writer_heap := assign (writer_heap s) (GetWriter imp) w'\<rparr>
                  in (case err of
                        Some e \<Rightarrow> Inr ((0, None), s1)
                      | None \<Rightarrow>
                          let n = tplN imp
                          in Inr ((n, None),
                               s1\<lparr>importer := imp
                                    \<lparr>tplMap := (tplMap imp)
                                        (n \<mapsto> \<lparr>SourceFile = sourceFile imp, Writer = GetWriter imp,
                                                TemplateId = res\<rparr>),
                                     tplN := incr (tplN imp),
                                     importedPages := (importedPages imp)(key \<mapsto> n)\<rparr>\<rparr>))))"

definition SetNextObjectID ::
  "('r, 'w) Collaborators \<Rightarrow> ('r, 'w) World \<Rightarrow> int \<Rightarrow> failure + ('r, 'w) World" where
  "SetNextObjectID env s objId =
     (let wp = GetWriter (importer s) in
      case deref (writer_heap s) wp of
        None \<Rightarrow> Inl NilPointerDereference
      | Some w \<Rightarrow> Inr (s\<lparr>writer_heap := assign (writer_heap s) wp (PdfWriter_SetNextObjectID env w objId)\<rparr>))"

text \<open>
  \<^verbatim>\<open>importer.GetWriter().PutFormXobjects(importer.GetReader())\<close>, the call lines 181
  and 195 share, on the Writer as it stands in \<open>s\<close>.
\<close>

definition call_PutFormXobjects ::
  "('r, 'w) Collaborators \<Rightarrow> ('r, 'w) World \<Rightarrow>
     failure + (((string \<times> PdfObjectId) list \<times> error option) \<times> ('r, 'w) World)" where
  "call_PutFormXobjects env s =
     (let imp = importer s in
      case deref (writer_heap s) (GetWriter imp) of
        None \<Rightarrow> Inl NilPointerDereference
      | Some w \<Rightarrow>
          let (res, w', r') = PdfWriter_PutFormXobjects env w (deref (reader_heap s) (GetReader imp))
          in Inr (res, s\<lparr>reader_heap := assign_opt (reader_heap s) (GetReader imp) r',
                         writer_heap := assign (writer_heap s) (GetWriter imp) w'\<rparr>))"

definition PutFormXobjects ::
  "('r, 'w) Collaborators \<Rightarrow> ('r, 'w) World \<Rightarrow>
     failure + (((string \<rightharpoonup> int) option \<times> error option) \<times> ('r, 'w) World)" where
  "PutFormXobjects env s =
     (case call_PutFormXobjects env s of
        Inl f \<Rightarrow> Inl f
      | Inr ((tplNamesIds, err), s') \<Rightarrow>
          (case err of
             Some e \<Rightarrow> Inr ((None, Some e), s')
           | None \<Rightarrow>
               Inr ((Some (fold (\<lambda>(tplName, pdfObjId) res. res(tplName \<mapsto> id' pdfObjId))
                             tplNamesIds Map.empty), None), s')))"

definition PutFormXobjectsUnordered ::
  "('r, 'w) Collaborators \<Rightarrow> ('r, 'w) World \<Rightarrow>
     failure + (((string \<rightharpoonup> string) option \<times> error option) \<times> ('r, 'w) World)" where
  "PutFormXobjectsUnordered env s =
     (let wp = GetWriter (importer s) in
      case deref (writer_heap s) wp of
        None \<Rightarrow> Inl NilPointerDereference
      | Some w \<Rightarrow>
          (case call_PutFormXobjects env
                  (s\<lparr>writer_heap := assign (writer_heap s) wp (SetUseHash w True)\<rparr>) of
             Inl f \<Rightarrow> Inl f
           | Inr ((tplNamesIds, err), s') \<Rightarrow>
               (case err of
                  Some e \<Rightarrow> Inr ((None, Some e), s')
                | None \<Rightarrow>
                    Inr ((Some (fold (\<lambda>(tplName, pdfObjId) res. res(tplName \<mapsto> hash pdfObjId))
                                  tplNamesIds Map.empty), None), s'))))"

text \<open>
  \<^verbatim>\<open>importer.GetWriter().GetImportedObjects()\<close>, the call lines 208 and 220 share.
\<close>

definition call_GetImportedObjects ::
  "('r, 'w) Collaborators \<Rightarrow> ('r, 'w) World \<Rightarrow>
     failure + ((PdfObjectId \<times> string) list \<times> ('r, 'w) World)" where
  "call_GetImportedObjects env s =
     (let wp = GetWriter (importer s) in
      case deref (writer_heap s) wp of
        None \<Rightarrow> Inl NilPointerDereference
      | Some w \<Rightarrow>
          let (pdfObjIdBytes, w') = PdfWriter_GetImportedObjects env w
          in Inr (pdfObjIdBytes, s\<lparr>writer_heap := assign (writer_heap s) wp w'\<rparr>))"

definition GetImportedObjects ::
  "('r, 'w) Collaborators \<Rightarrow> ('r, 'w) World \<Rightarrow> failure + ((int \<rightharpoonup> string) \<times> ('r, 'w) World)" where
  "GetImportedObjects env s =
     (case call_GetImportedObjects env s of
        Inl f \<Rightarrow> Inl f
      | Inr (pdfObjIdBytes, s') \<Rightarrow>
          Inr (fold (\<lambda>(pdfObjId, bytes) res. res(id' pdfObjId \<mapsto> bytes)) pdfObjIdBytes Map.empty, s'))"

definition GetImportedObjectsUnordered ::
  "('r, 'w) Collaborators \<Rightarrow> ('r, 'w) World \<Rightarrow> failure + ((string \<rightharpoonup> string) \<times> ('r, 'w) World)" where
  "GetImportedObjectsUnordered env s =
     (case call_GetImportedObjects env s of
        Inl f \<Rightarrow> Inl f
      | Inr (pdfObjIdBytes, s') \<Rightarrow>
          Inr (fold (\<lambda>(pdfObjId, bytes) res. res(hash pdfObjId \<mapsto> bytes)) pdfObjIdBytes Map.empty, s'))"

definition GetImportedObjHashPos ::
  "('r, 'w) Collaborators \<Rightarrow> ('r, 'w) World \<Rightarrow>
     failure + ((string \<rightharpoonup> (int \<rightharpoonup> string)) \<times> ('r, 'w) World)" where
  "GetImportedObjHashPos env s =
     (let wp = GetWriter (importer s) in
      case deref (writer_heap s) wp of
        None \<Rightarrow> Inl NilPointerDereference
      | Some w \<Rightarrow>
          let (pdfObjIdPosHash, w') = PdfWriter_GetImportedObjHashPos env w
          in Inr (fold (\<lambda>(pdfObjId, posHashMap) res. res(hash pdfObjId \<mapsto> posHashMap))
                    pdfObjIdPosHash Map.empty,
                  s\<lparr>writer_heap := assign (writer_heap s) wp w'\<rparr>))"

text \<open>
  \<^verbatim>\<open>tplInfo.Writer\<close> reads a field through the pointer the map lookup gave: for a
  key the map does not hold that pointer is nil and the read panics.
\<close>

definition UseTemplate ::
  "('r, 'w) Collaborators \<Rightarrow> ('r, 'w) World \<Rightarrow> int \<Rightarrow> float64 \<Rightarrow> float64 \<Rightarrow> float64 \<Rightarrow> float64 \<Rightarrow>
     failure + ((string \<times> float64 \<times> float64 \<times> float64 \<times> float64) \<times> ('r, 'w) World)" where
  "UseTemplate env s tplid x y w h =
     (case tplMap (importer s) tplid of
        None \<Rightarrow> Inl NilPointerDereference
      | Some tplInfo \<Rightarrow>
          (case deref (writer_heap s) (Writer tplInfo) of
             None \<Rightarrow> Inl NilPointerDereference
           | Some wr \<Rightarrow>
               let (res, wr') = PdfWriter_UseTemplate env wr (TemplateId tplInfo) x y w h
               in Inr (res, s\<lparr>writer_heap := assign (writer_heap s) (Writer tplInfo) wr'\<rparr>)))"

text \<open>
  The value of the local variable \<^verbatim>\<open>err\<close> after line 153 of
  \<^verbatim>\<open>ImportPage\<close>: the error of the Writer's page import, \<open>None\<close> when the Writer
  reports none or the line is not reached.
\<close>

definition import_err :: "('r, 'w) Collaborators \<Rightarrow> ('r, 'w) World \<Rightarrow> int \<Rightarrow> string \<Rightarrow> error option" where
  "import_err env s pageno box =
     (let imp = importer s in
      case importedPages imp (pageNameNumber (sourceFile imp) pageno) of
        Some n \<Rightarrow> None
      | None \<Rightarrow>
          (case deref (writer_heap s) (GetWriter imp) of
             None \<Rightarrow> None
           | Some w \<Rightarrow>
               snd (fst (PdfWriter_ImportPage env w (deref (reader_heap s) (GetReader imp)) pageno box))))"

section \<open>Runs\<close>

text \<open>
  A call of one of the state-changing methods of the Importer, and the state a sequence of
  calls leaves; a panic ends the run.
\<close>

datatype call =
    CallSetSourceFile string
  | CallSetSourceStream ptr
  | CallGetNumPages
  | CallGetPageSizes
  | CallImportPage int string
  | CallSetNextObjectID int
  | CallPutFormXobjects
  | CallPutFormXobjectsUnordered
  | CallGetImportedObjects
  | CallGetImportedObjectsUnordered
  | CallGetImportedObjHashPos
  | CallUseTemplate int float64 float64 float64 float64

fun exec :: "('r, 'w) Collaborators \<Rightarrow> ('r, 'w) World \<Rightarrow> call \<Rightarrow> failure + ('r, 'w) World" where
  "exec env s (CallSetSourceFile f) = Inr (snd (SetSourceFile env s f))"
| "exec env s (CallSetSourceStream rs) = map_sum id snd (SetSourceStream env s rs)"
| "exec env s CallGetNumPages = map_sum id snd (GetNumPages env s)"
| "exec env s CallGetPageSizes = map_sum id snd (GetPageSizes env s)"
| "exec env s (CallImportPage pageno box) = map_sum id snd (ImportPage env s pageno box)"
| "exec env s (CallSetNextObjectID objId) = SetNextObjectID env s objId"
| "exec env s CallPutFormXobjects = map_sum id snd (PutFormXobjects env s)"
| "exec env s CallPutFormXobjectsUnordered = map_sum id snd (PutFormXobjectsUnordered env s)"
| "exec env s CallGetImportedObjects = map_sum id snd (GetImportedObjects env s)"
| "exec env s CallGetImportedObjectsUnordered = map_sum id snd (GetImportedObjectsUnordered env s)"
| "exec env s CallGetImportedObjHashPos = map_sum id snd (GetImportedObjHashPos env s)"
| "exec env s (CallUseTemplate tplid x y w h) = map_sum id snd (UseTemplate env s tplid x y w h)"

fun run :: "('r, 'w) Collaborators \<Rightarrow> ('r, 'w) World \<Rightarrow> call list \<Rightarrow> failure + ('r, 'w) World" where
  "run env s [] = Inr s"
| "run env s (c # cs) = (case exec env s c of Inl f \<Rightarrow> Inl f | Inr s' \<Rightarrow> run env s' cs)"



section \<open>A Reader and a Writer to run the Importer with\<close>

text \<open>
  Modelled from the spec: a Reader and a Writer with the interface of section 6, in place
  of reader.go and writer.go, which are not under src/. A Reader is the number of pages
  of its document; the documents are those of the scenario of section 8, A.pdf with three
  pages and B.pdf with one, and opening any other file is a SourceReadError. A Writer
  counts the templates it holds and numbers them from 0 (the writer-local ids, which are
  not unique across documents); its page import fails with a PageImportError for a page
  number out of range; the name of a template is made from its writer-local id and the
  offset.
\<close>

definition example_env :: "(nat, nat) Collaborators" where
  "example_env =
     \<lparr>NewPdfReader = (\<lambda>f. if f = ''A.pdf'' then Inr 3 else if f = ''B.pdf'' then Inr 1
                          else Inl (Error ''SourceReadError'')),
      NewPdfReaderFromStream = (\<lambda>a. Inr 1),
      NewPdfWriter = (\<lambda>f. Inr \<lparr>tpl_id_offset = 0, use_hash = False, rest = 0\<rparr>),
      getNumPages = (\<lambda>r. ((int r, None), r)),
      getAllPageBoxes = (\<lambda>r k. ((Map.empty, None), r)),
      PdfWriter_ImportPage = (\<lambda>w r pageno box.
         case r of
           None \<Rightarrow> ((0, Some (Error ''PageImportError'')), w, r)
         | Some n \<Rightarrow>
             if 1 \<le> pageno \<and> pageno \<le> int n
             then ((int (rest w), None), w\<lparr>rest := Suc (rest w)\<rparr>, r)
             else ((0, Some (Error ''PageImportError'')), w, r)),
      PdfWriter_SetNextObjectID = (\<lambda>w n. w),
      PdfWriter_PutFormXobjects = (\<lambda>w r. (([], None), w, r)),
      PdfWriter_GetImportedObjects = (\<lambda>w. ([], w)),
      PdfWriter_GetImportedObjHashPos = (\<lambda>w. ([], w)),
      PdfWriter_UseTemplate = (\<lambda>w tplid x y wd h.
         ((''/GOFPDITPL'' @ dec (nat (tplid + tpl_id_offset w)), x, y, wd, h), w))\<rparr>"

text \<open>The Importer right after \<^verbatim>\<open>SetSourceFile("A.pdf")\<close> on a new Importer.\<close>

definition bound_A :: "(nat, nat) World" where
  "bound_A = snd (SetSourceFile example_env (NewImporter example_env) ''A.pdf'')"

text \<open>The Importer after \<^verbatim>\<open>ImportPage(1, "/MediaBox")\<close> on \<open>bound_A\<close>.\<close>

definition imported_A1 :: "(nat, nat) World" where
  "imported_A1 =
     (case ImportPage example_env bound_A 1 ''/MediaBox'' of Inr (r, s) \<Rightarrow> s | Inl f \<Rightarrow> bound_A)"



section \<open>Invariants\<close>

text \<open>A pointer with an object behind it.\<close>

definition live :: "'a list \<Rightarrow> ptr \<Rightarrow> bool" where
  "live h p = (case p of NilPtr \<Rightarrow> False | Ref a \<Rightarrow> a < length h)"






text \<open>
  What the claim about the hash switch takes from writer.go: no method of the Writer but
  \<^verbatim>\<open>SetUseHash\<close> changes the switch.
\<close>

definition keeps_use_hash :: "('r, 'w) Collaborators \<Rightarrow> bool" where
  "keeps_use_hash env \<longleftrightarrow>
     (\<forall>w r p b. use_hash (fst (snd (PdfWriter_ImportPage env w r p b))) = use_hash w) \<and>
     (\<forall>w n. use_hash (PdfWriter_SetNextObjectID env w n) = use_hash w) \<and>
     (\<forall>w r. use_hash (fst (snd (PdfWriter_PutFormXobjects env w r))) = use_hash w) \<and>
     (\<forall>w. use_hash (snd (PdfWriter_GetImportedObjects env w)) = use_hash w) \<and>
     (\<forall>w. use_hash (snd (PdfWriter_GetImportedObjHashPos env w)) = use_hash w) \<and>
     (\<forall>w n x y wd h. use_hash (snd (PdfWriter_UseTemplate env w n x y wd h)) = use_hash w)"

text \<open>The Writer at address \<open>a\<close> exists and has its hash switch on.\<close>

definition hash_on :: "'w PdfWriter list \<Rightarrow> nat \<Rightarrow> bool" where
  "hash_on h a \<longleftrightarrow> a < length h \<and> use_hash (h ! a)"


section \<open>Basic facts\<close>

declare dec.simps [simp del] hex.simps [simp del]

lemmas op_defs = SetSourceFile_def SetSourceStream_def instantiate_writer_def GetNumPages_def
  GetPageSizes_def ImportPage_def SetNextObjectID_def PutFormXobjects_def PutFormXobjectsUnordered_def
  call_PutFormXobjects_def call_GetImportedObjects_def GetImportedObjects_def
  GetImportedObjectsUnordered_def GetImportedObjHashPos_def UseTemplate_def alloc_def

lemmas op_splits = option.splits sum.splits prod.splits if_splits ptr.splits

lemma deref_Some_iff: "deref h p = Some v \<longleftrightarrow> (\<exists>a. p = Ref a \<and> a < length h \<and> v = h ! a)"
  by (auto simp: deref_def split: ptr.splits)


lemma deref_Some_live: "deref h p = Some v \<Longrightarrow> live h p"
  by (auto simp: deref_def live_def split: ptr.splits if_splits)


lemma length_assign [simp]: "length (assign h p v) = length h"
  by (simp add: assign_def split: ptr.splits)

lemma length_assign_opt [simp]: "length (assign_opt h p vo) = length h"
  by (simp add: assign_opt_def split: option.splits)

lemma exec_cache_mono:
  "exec env s c = Inr s' \<Longrightarrow> importedPages (importer s) k = Some n \<Longrightarrow>
     importedPages (importer s') k = Some n"
  by (cases c) (auto simp: op_defs Let_def split: op_splits)















lemma run_cache_mono:
  "run env s cs = Inr s' \<Longrightarrow> importedPages (importer s) k = Some n \<Longrightarrow>
     importedPages (importer s') k = Some n"
  by (induction cs arbitrary: s) (auto split: sum.splits dest: exec_cache_mono)





lemma hash_on_append: "hash_on h a \<Longrightarrow> hash_on (h @ xs) a"
  by (simp add: hash_on_def nth_append)

lemma hash_on_assign:
  assumes "hash_on h a" and "deref h p = Some w" and "use_hash w \<Longrightarrow> use_hash w'"
  shows "hash_on (assign h p w') a"
proof (cases p)
  case NilPtr
  then show ?thesis using assms(1) by (simp add: assign_def)
next
  case (Ref b)
  then have "b < length h" "h ! b = w"
    using assms(2) by (auto simp: deref_def split: if_splits)
  then show ?thesis
    using assms(1,3) Ref by (auto simp: hash_on_def assign_def nth_list_update)
qed

lemma exec_hash_on:
  assumes "keeps_use_hash env" and "exec env s c = Inr s'" and "hash_on (writer_heap s) a"
  shows "hash_on (writer_heap s') a"
  using assms
  by (cases c)
    (auto simp: op_defs keeps_use_hash_def SetUseHash_def SetTplIdOffset_def Let_def split_beta
      intro!: hash_on_assign hash_on_append
      split: option.splits sum.splits if_splits ptr.splits)

lemma run_hash_on:
  "keeps_use_hash env \<Longrightarrow> run env s cs = Inr s' \<Longrightarrow> hash_on (writer_heap s) a \<Longrightarrow>
     hash_on (writer_heap s') a"
  by (induction cs arbitrary: s) (auto split: sum.splits dest: exec_hash_on)

section \<open>The cache key\<close>











text \<open>
  A page number below zero is outside this: its sign is written like the separator.
\<close>

lemma pageNameNumber_clash: "pageNameNumber ''X-'' 1000 = pageNameNumber ''X'' (- 1000)"
  by (simp add: pageNameNumber_def fmt04d_def pad0_def dec.simps digit_def)

section \<open>The example run\<close>

lemma bound_A_eq:
  "bound_A =
     \<lparr>importer = \<lparr>sourceFile = ''A.pdf'', readers = [''A.pdf'' \<mapsto> Ref 0],
                  writers = [''A.pdf'' \<mapsto> Ref 1], tplMap = Map.empty, tplN = 0,
                  writer = Ref 0, importedPages = Map.empty\<rparr>,
      reader_heap = [3],
      writer_heap = [\<lparr>tpl_id_offset = 0, use_hash = False, rest = 0\<rparr>,
                     \<lparr>tpl_id_offset = 0, use_hash = False, rest = 0\<rparr>]\<rparr>"
  by (simp add: bound_A_def SetSourceFile_def NewImporter_def example_env_def alloc_def
      instantiate_writer_def SetTplIdOffset_def Let_def)

lemma fmt04d_1: "fmt04d 1 = ''0001''"
  by (simp add: fmt04d_def pad0_def dec.simps digit_def eval_nat_numeral)

lemma fmt04d_2: "fmt04d 2 = ''0002''"
  by (simp add: fmt04d_def pad0_def dec.simps digit_def eval_nat_numeral)

lemma fmt04d_7: "fmt04d 7 = ''0007''"
  by (simp add: fmt04d_def pad0_def dec.simps digit_def eval_nat_numeral)

lemma ImportPage_writer_error:
  assumes "import_err env s pageno box = Some e"
  shows "\<exists>s'. ImportPage env s pageno box = Inr ((0, None), s') \<and> importer s' = importer s"
  using assms
  by (auto simp: import_err_def ImportPage_def Let_def split: op_splits)

lemma import_err_bound_A_7:
  "import_err example_env bound_A 7 ''/MediaBox'' = Some (Error ''PageImportError'')"
  by (simp add: import_err_def bound_A_eq pageNameNumber_def GetWriter_def GetWriterForFile_def
      GetReader_def GetReaderForFile_def deref_def example_env_def Let_def)

lemma ImportPage_cached:
  "importedPages (importer s) (pageNameNumber (sourceFile (importer s)) p) = Some n \<Longrightarrow>
     ImportPage env s p b = Inr ((n, None), s)"
  by (simp add: ImportPage_def Let_def)

lemma ImportPage_ok_cached:
  assumes "ImportPage env s p b = Inr ((n, e), s1)" and "import_err env s p b = None"
  shows "importedPages (importer s1) (pageNameNumber (sourceFile (importer s)) p) = Some n \<and>
         sourceFile (importer s1) = sourceFile (importer s) \<and> e = None"
  using assms
  by (auto simp: import_err_def ImportPage_def Let_def split: op_splits)

lemmas eval_defs = op_defs NewImporter_def example_env_def GetReader_def GetWriter_def
  GetReaderForFile_def GetWriterForFile_def deref_def assign_def assign_opt_def
  pageNameNumber_def SetTplIdOffset_def SetUseHash_def import_err_def Let_def
  fmt04d_1 fmt04d_2 fmt04d_7

lemma ImportPage_bound_A_1_eq:
  "ImportPage example_env bound_A 1 ''/MediaBox'' =
     Inr ((0, None),
       \<lparr>importer = \<lparr>sourceFile = ''A.pdf'', readers = [''A.pdf'' \<mapsto> Ref 0],
                    writers = [''A.pdf'' \<mapsto> Ref 1],
                    tplMap = [0 \<mapsto> \<lparr>SourceFile = ''A.pdf'', Writer = Ref 1, TemplateId = 0\<rparr>],
                    tplN = 1, writer = Ref 0, importedPages = [''A.pdf-0001'' \<mapsto> 0]\<rparr>,
        reader_heap = [3],
        writer_heap = [\<lparr>tpl_id_offset = 0, use_hash = False, rest = 0\<rparr>,
                       \<lparr>tpl_id_offset = 0, use_hash = False, rest = 1\<rparr>]\<rparr>)"
  by (simp add: bound_A_eq eval_defs incr_def max_int_def)

lemma imported_A1_eq:
  "imported_A1 =
     \<lparr>importer = \<lparr>sourceFile = ''A.pdf'', readers = [''A.pdf'' \<mapsto> Ref 0],
                  writers = [''A.pdf'' \<mapsto> Ref 1],
                  tplMap = [0 \<mapsto> \<lparr>SourceFile = ''A.pdf'', Writer = Ref 1, TemplateId = 0\<rparr>],
                  tplN = 1, writer = Ref 0, importedPages = [''A.pdf-0001'' \<mapsto> 0]\<rparr>,
      reader_heap = [3],
      writer_heap = [\<lparr>tpl_id_offset = 0, use_hash = False, rest = 0\<rparr>,
                     \<lparr>tpl_id_offset = 0, use_hash = False, rest = 1\<rparr>]\<rparr>"
  by (simp add: imported_A1_def ImportPage_bound_A_1_eq)

lemma ImportPage_bound_A_1:
  "ImportPage example_env bound_A 1 ''/MediaBox'' = Inr ((0, None), imported_A1)"
  by (simp add: imported_A1_eq ImportPage_bound_A_1_eq)

lemma import_err_bound_A_1: "import_err example_env bound_A 1 ''/MediaBox'' = None"
  by (simp add: bound_A_eq eval_defs)


lemma SetSourceFile_sourceFile: "sourceFile (importer (snd (SetSourceFile env s f))) = f"
  by (simp add: op_defs Let_def split: op_splits)

lemma SetSourceFile_new:
  assumes "readers (importer s) f = None" and "writers (importer s) f = None"
    and "NewPdfReader env f = Inr r" and "NewPdfWriter env [] = Inr w"
  shows "SetSourceFile env s f =
           (None, \<lparr>importer = (importer s)
                      \<lparr>sourceFile := f,
                       readers := (readers (importer s))(f \<mapsto> Ref (length (reader_heap s))),
                       writers := (writers (importer s))(f \<mapsto> Ref (length (writer_heap s)))\<rparr>,
                   reader_heap = reader_heap s @ [r],
                   writer_heap = writer_heap s @ [w\<lparr>tpl_id_offset := tplN (importer s)\<rparr>]\<rparr>)"
  using assms by (simp add: op_defs SetTplIdOffset_def Let_def)

lemma ImportPage_new:
  assumes "importedPages (importer s) (pageNameNumber (sourceFile (importer s)) p) = None"
    and "writers (importer s) (sourceFile (importer s)) = Some (Ref a)"
    and "a < length (writer_heap s)"
    and "import_err env s p b = None"
  shows "\<exists>res s'. ImportPage env s p b = Inr ((tplN (importer s), None), s') \<and>
           importer s' = (importer s)
                \<lparr>tplMap := (tplMap (importer s))
                    (tplN (importer s) \<mapsto>
                       \<lparr>SourceFile = sourceFile (importer s), Writer = Ref a, TemplateId = res\<rparr>),
                 tplN := incr (tplN (importer s)),
                 importedPages := (importedPages (importer s))
                    (pageNameNumber (sourceFile (importer s)) p \<mapsto> tplN (importer s))\<rparr> \<and>
           length (reader_heap s') = length (reader_heap s) \<and>
           length (writer_heap s') = length (writer_heap s)"
  using assms
  by (auto simp: ImportPage_def import_err_def GetWriter_def GetWriterForFile_def deref_def Let_def
      split: prod.splits option.splits)

lemma key_A1: "pageNameNumber ''A.pdf'' 1 = ''A.pdf-0001''"
  by (simp add: pageNameNumber_def fmt04d_1)

lemma key_A2: "pageNameNumber ''A.pdf'' 2 = ''A.pdf-0002''"
  by (simp add: pageNameNumber_def fmt04d_2)

lemma key_B1: "pageNameNumber ''B.pdf'' 1 = ''B.pdf-0001''"
  by (simp add: pageNameNumber_def fmt04d_1)

lemma incr_small: "incr 0 = 1" "incr 1 = 2" "incr 2 = 3"
  by (simp_all add: incr_def max_int_def)










lemma SetSourceFile_A: "SetSourceFile example_env (NewImporter example_env) ''A.pdf'' = (None, bound_A)"
  by (simp add: bound_A_eq) (simp add: eval_defs)

lemma keeps_use_hash_example: "keeps_use_hash example_env"
  by (simp add: keeps_use_hash_def example_env_def split: option.splits)



















section \<open>Query accessors\<close>

text \<open>
  C8. For a document key with no bound Reader or Writer, \<^verbatim>\<open>GetReaderForFile\<close> and
  \<^verbatim>\<open>GetWriterForFile\<close> return the nil pointer (they return a pointer in every case:
  there is no error and no panic), and for a bound key they return the pointer bound to
  it; \<^verbatim>\<open>GetReader\<close> and \<^verbatim>\<open>GetWriter\<close> are the same queries for the active key.
\<close>

theorem accessors_absent_or_bound:
  "(readers imp file = None \<longrightarrow> GetReaderForFile imp file = NilPtr) \<and>
   (writers imp file = None \<longrightarrow> GetWriterForFile imp file = NilPtr) \<and>
   (readers imp file = Some p \<longrightarrow> GetReaderForFile imp file = p) \<and>
   (writers imp file = Some q \<longrightarrow> GetWriterForFile imp file = q) \<and>
   GetReader imp = GetReaderForFile imp (sourceFile imp) \<and>
   GetWriter imp = GetWriterForFile imp (sourceFile imp)"
  by (simp add: GetReaderForFile_def GetWriterForFile_def GetReader_def GetWriter_def)

theorem accessors_absent_or_bound_witness:
  "readers (importer bound_A) ''B.pdf'' = None \<and>
   GetReaderForFile (importer bound_A) ''B.pdf'' = NilPtr \<and>
   writers (importer bound_A) ''B.pdf'' = None \<and>
   GetWriterForFile (importer bound_A) ''B.pdf'' = NilPtr \<and>
   readers (importer bound_A) ''A.pdf'' = Some (Ref 0) \<and>
   GetReaderForFile (importer bound_A) ''A.pdf'' = Ref 0 \<and>
   writers (importer bound_A) ''A.pdf'' = Some (Ref 1) \<and>
   GetWriterForFile (importer bound_A) ''A.pdf'' = Ref 1 \<and>
   GetReader (importer bound_A) = Ref 0 \<and> GetWriter (importer bound_A) = Ref 1"
  using accessors_absent_or_bound [of "importer bound_A" "''B.pdf''"]
    accessors_absent_or_bound [of "importer bound_A" "''A.pdf''" "Ref 0" "Ref 1"]
  by (simp add: bound_A_eq)

section \<open>Binding a document that cannot be read\<close>

text \<open>
  C9. \<^verbatim>\<open>SetSourceFile\<close> makes its argument the active key before it constructs the
  Reader. When the key has no Reader and the construction fails, the call returns the
  Reader's error, \<^verbatim>\<open>readers\<close> and \<^verbatim>\<open>writers\<close> are as before, the active key
  is the failed document, and \<^verbatim>\<open>GetReader\<close> returns nil, whichever Reader was active
  before.
\<close>

theorem SetSourceFile_reader_error:
  assumes "readers (importer s) f = None" and "NewPdfReader env f = Inl e"
  shows "SetSourceFile env s f = (Some e, s\<lparr>importer := (importer s)\<lparr>sourceFile := f\<rparr>\<rparr>) \<and>
         readers (importer (snd (SetSourceFile env s f))) = readers (importer s) \<and>
         writers (importer (snd (SetSourceFile env s f))) = writers (importer s) \<and>
         sourceFile (importer (snd (SetSourceFile env s f))) = f \<and>
         GetReader (importer (snd (SetSourceFile env s f))) = NilPtr"
  using assms by (simp add: SetSourceFile_def Let_def GetReader_def GetReaderForFile_def)

theorem SetSourceFile_reader_error_witness:
  "readers (importer bound_A) ''C.pdf'' = None \<and>
   NewPdfReader example_env ''C.pdf'' = Inl (Error ''SourceReadError'') \<and>
   GetReader (importer bound_A) = Ref 0 \<and>
   fst (SetSourceFile example_env bound_A ''C.pdf'') = Some (Error ''SourceReadError'') \<and>
   readers (importer (snd (SetSourceFile example_env bound_A ''C.pdf''))) = readers (importer bound_A) \<and>
   writers (importer (snd (SetSourceFile example_env bound_A ''C.pdf''))) = writers (importer bound_A) \<and>
   sourceFile (importer (snd (SetSourceFile example_env bound_A ''C.pdf''))) = ''C.pdf'' \<and>
   GetReader (importer (snd (SetSourceFile example_env bound_A ''C.pdf''))) = NilPtr"
proof -
  have h1: "readers (importer bound_A) ''C.pdf'' = None"
    by (simp add: bound_A_eq)
  have h2: "NewPdfReader example_env ''C.pdf'' = Inl (Error ''SourceReadError'')"
    by (simp add: example_env_def)
  have h3: "GetReader (importer bound_A) = Ref 0"
    by (simp add: bound_A_eq GetReader_def GetReaderForFile_def)
  show ?thesis
    using SetSourceFile_reader_error [OF h1 h2] h1 h2 h3
    by (simp add: GetReader_def GetReaderForFile_def)
qed

section \<open>A page import the Writer fails\<close>

text \<open>
  C6. When the Writer's page import reports an error, \<^verbatim>\<open>ImportPage\<close> returns with
  the Importer as it was: the counter \<^verbatim>\<open>tplN\<close> is not incremented and nothing is
  added to \<^verbatim>\<open>tplMap\<close> or to \<^verbatim>\<open>importedPages\<close>.
\<close>

theorem ImportPage_failure_keeps_importer:
  assumes "import_err env s pageno box = Some e"
  shows "\<exists>s'. ImportPage env s pageno box = Inr ((0, None), s') \<and>
              importer s' = importer s \<and>
              tplN (importer s') = tplN (importer s) \<and>
              tplMap (importer s') = tplMap (importer s) \<and>
              importedPages (importer s') = importedPages (importer s)"
  using ImportPage_writer_error [OF assms] by auto

theorem ImportPage_failure_keeps_importer_witness:
  "import_err example_env bound_A 7 ''/MediaBox'' = Some (Error ''PageImportError'') \<and>
   (\<exists>s'. ImportPage example_env bound_A 7 ''/MediaBox'' = Inr ((0, None), s') \<and>
         importer s' = importer bound_A \<and>
         tplN (importer s') = 0 \<and>
         tplMap (importer s') = Map.empty \<and>
         importedPages (importer s') = Map.empty)"
  using ImportPage_failure_keeps_importer [OF import_err_bound_A_7] import_err_bound_A_7
  by (simp add: bound_A_eq)

text \<open>
  C1. The specification asks that a failed page import fails with the Writer's error.
  Line 155 returns \<^verbatim>\<open>0, nil\<close> instead: on the example, page 7 of the three-page
  A.pdf makes the Writer report a PageImportError, and \<^verbatim>\<open>ImportPage\<close> returns
  template id 0 and no error. Nothing is allocated, as the specification asks.
\<close>

theorem ImportPage_drops_writer_error:
  "import_err example_env bound_A 7 ''/MediaBox'' = Some (Error ''PageImportError'') \<and>
   ImportPage example_env bound_A 7 ''/MediaBox'' = Inr ((0, None), bound_A)"
  by (simp add: import_err_def ImportPage_def bound_A_eq pageNameNumber_def GetWriter_def
      GetWriterForFile_def GetReader_def GetReaderForFile_def deref_def example_env_def Let_def
      assign_def assign_opt_def)

text \<open>
  The template id 0 that call returned has no TplInfo: placing it panics.
\<close>

lemma UseTemplate_after_failed_import:
  "UseTemplate example_env bound_A 0 x y w h = Inl NilPointerDereference"
  by (simp add: UseTemplate_def bound_A_eq)

section \<open>The page cache\<close>

text \<open>
  C3. The cache key is made of the active document and the page number only. Once
  \<^verbatim>\<open>ImportPage\<close> of page \<open>p\<close> with box \<open>b1\<close> has returned template id \<open>n\<close> (the
  Writer reported no error), then after any further calls, with the same document active
  again, \<^verbatim>\<open>ImportPage\<close> of page \<open>p\<close> with any box \<open>b2\<close> returns \<open>n\<close> and leaves the
  whole state as it is, whatever the Reader and the Writer \<open>env'\<close> would do: the Writer
  is not asked again.
\<close>

theorem ImportPage_cached_for_any_box:
  assumes "ImportPage env s p b1 = Inr ((n, e), s1)"
    and "import_err env s p b1 = None"
    and "run env s1 cs = Inr s2"
    and "sourceFile (importer s2) = sourceFile (importer s)"
  shows "ImportPage env' s2 p b2 = Inr ((n, None), s2)"
proof -
  have "importedPages (importer s1) (pageNameNumber (sourceFile (importer s)) p) = Some n"
    using ImportPage_ok_cached [OF assms(1,2)] by simp
  then have "importedPages (importer s2) (pageNameNumber (sourceFile (importer s)) p) = Some n"
    using run_cache_mono [OF assms(3)] by simp
  then show ?thesis
    using assms(4) by (simp add: ImportPage_cached)
qed

theorem ImportPage_cached_for_any_box_witness:
  "ImportPage example_env bound_A 1 ''/MediaBox'' = Inr ((0, None), imported_A1) \<and>
   import_err example_env bound_A 1 ''/MediaBox'' = None \<and>
   (\<exists>s2. run example_env imported_A1 [CallSetSourceFile ''B.pdf'', CallSetSourceFile ''A.pdf''] = Inr s2 \<and>
      sourceFile (importer s2) = sourceFile (importer bound_A) \<and>
      ImportPage example_env s2 1 ''/CropBox'' = Inr ((0, None), s2))"
proof -
  define s2 where
    "s2 = snd (SetSourceFile example_env (snd (SetSourceFile example_env imported_A1 ''B.pdf'')) ''A.pdf'')"
  have r: "run example_env imported_A1 [CallSetSourceFile ''B.pdf'', CallSetSourceFile ''A.pdf''] = Inr s2"
    by (simp add: s2_def)
  have f: "sourceFile (importer s2) = sourceFile (importer bound_A)"
    by (simp add: s2_def bound_A_def SetSourceFile_sourceFile)
  show ?thesis
    using ImportPage_cached_for_any_box [OF ImportPage_bound_A_1 import_err_bound_A_1 r f,
        of example_env "''/CropBox''"]
      ImportPage_bound_A_1 import_err_bound_A_1 r f
    by blast
qed

section \<open>Page count of an unbound document\<close>

text \<open>
  C4, as amended. When the active key has no Reader, \<^verbatim>\<open>GetNumPages\<close> calls
  \<^verbatim>\<open>getNumPages\<close> through the nil pointer \<^verbatim>\<open>GetReader\<close> returned and panics with
  a nil pointer dereference; it returns no error. When the active key is bound to a Reader,
  it returns the Reader's page count with no error, or 0 and the Reader's error.
\<close>

theorem GetNumPages_unbound_panics:
  "(readers (importer s) (sourceFile (importer s)) = None \<longrightarrow>
      GetNumPages env s = Inl NilPointerDereference) \<and>
   (readers (importer s) (sourceFile (importer s)) = Some (Ref a) \<and> a < length (reader_heap s) \<and>
    getNumPages env (reader_heap s ! a) = ((result, err), r') \<longrightarrow>
      GetNumPages env s =
        Inr ((if err = None then result else 0, err), s\<lparr>reader_heap := (reader_heap s)[a := r']\<rparr>))"
  by (auto simp: GetNumPages_def GetReader_def GetReaderForFile_def deref_def assign_def Let_def
      split: option.splits)

text \<open>
  C4 as stated fails: on a new Importer no Reader is bound, and \<^verbatim>\<open>GetNumPages\<close>
  panics; it neither fails with a DocumentNotBoundError nor returns an error.
\<close>

theorem GetNumPages_unbound_counterexample:
  "readers (importer (NewImporter example_env)) (sourceFile (importer (NewImporter example_env))) = None \<and>
   GetNumPages example_env (NewImporter example_env) = Inl NilPointerDereference \<and>
   GetNumPages example_env (NewImporter example_env) \<noteq> Inl DocumentNotBoundError \<and>
   (\<forall>n e s'. GetNumPages example_env (NewImporter example_env) \<noteq> Inr ((n, Some e), s'))"
  by (simp add: GetNumPages_def GetReader_def GetReaderForFile_def deref_def NewImporter_def
      alloc_def example_env_def Let_def)

theorem GetNumPages_unbound_panics_witness:
  "readers (importer (NewImporter example_env)) (sourceFile (importer (NewImporter example_env))) = None \<and>
   GetNumPages example_env (NewImporter example_env) = Inl NilPointerDereference \<and>
   readers (importer bound_A) (sourceFile (importer bound_A)) = Some (Ref 0) \<and>
   0 < length (reader_heap bound_A) \<and>
   getNumPages example_env (reader_heap bound_A ! 0) = ((3, None), 3) \<and>
   GetNumPages example_env bound_A = Inr ((3, None), bound_A)"
  using GetNumPages_unbound_panics [where s = "NewImporter example_env" and env = example_env]
    GetNumPages_unbound_panics [where s = bound_A and env = example_env and a = 0 and result = 3
      and err = None and r' = 3]
  by (simp add: bound_A_eq NewImporter_def alloc_def example_env_def)

section \<open>Template placement\<close>




section \<open>The scenario of section 8\<close>

text \<open>
  C7. With a Reader for A.pdf and one for B.pdf and a Writer constructor that succeeds: on
  a new Importer, \<^verbatim>\<open>SetSourceFile("A.pdf")\<close> succeeds; if the Writer reports no error
  for it, \<^verbatim>\<open>ImportPage(1, "/MediaBox")\<close> returns 0, and the same call again returns 0;
  if the Writer reports no error for it, \<^verbatim>\<open>ImportPage(2, "/MediaBox")\<close> returns 1 and
  \<^verbatim>\<open>SetSourceFile("B.pdf")\<close> succeeds; and if the Writer reports no error for it,
  \<^verbatim>\<open>ImportPage(1, "/MediaBox")\<close> then returns 2.
\<close>

theorem scenario_template_ids:
  assumes rA: "NewPdfReader env ''A.pdf'' = Inr rA"
    and rB: "NewPdfReader env ''B.pdf'' = Inr rB"
    and w0: "NewPdfWriter env [] = Inr w0"
  shows "\<exists>s1. SetSourceFile env (NewImporter env) ''A.pdf'' = (None, s1) \<and>
           (import_err env s1 1 ''/MediaBox'' = None \<longrightarrow>
             (\<exists>s2. ImportPage env s1 1 ''/MediaBox'' = Inr ((0, None), s2) \<and>
                ImportPage env s2 1 ''/MediaBox'' = Inr ((0, None), s2) \<and>
                (import_err env s2 2 ''/MediaBox'' = None \<longrightarrow>
                  (\<exists>s3 s4. ImportPage env s2 2 ''/MediaBox'' = Inr ((1, None), s3) \<and>
                     SetSourceFile env s3 ''B.pdf'' = (None, s4) \<and>
                     (import_err env s4 1 ''/MediaBox'' = None \<longrightarrow>
                       (\<exists>s5. ImportPage env s4 1 ''/MediaBox'' = Inr ((2, None), s5)))))))"
proof -
  define s0 where "s0 = NewImporter env"
  have s0: "importer s0 = \<lparr>sourceFile = [], readers = Map.empty, writers = Map.empty,
      tplMap = Map.empty, tplN = 0, writer = Ref 0, importedPages = Map.empty\<rparr>"
    "reader_heap s0 = []" "writer_heap s0 = [w0]"
    by (simp_all add: s0_def NewImporter_def w0 alloc_def)
  obtain s1 where b1: "SetSourceFile env s0 ''A.pdf'' = (None, s1)"
    and i1: "importer s1 = \<lparr>sourceFile = ''A.pdf'', readers = [''A.pdf'' \<mapsto> Ref 0],
      writers = [''A.pdf'' \<mapsto> Ref 1], tplMap = Map.empty, tplN = 0, writer = Ref 0,
      importedPages = Map.empty\<rparr>"
    and h1: "length (writer_heap s1) = 2"
    using SetSourceFile_new [of s0 "''A.pdf''" env rA w0] rA w0 by (simp add: s0)
  have third: "\<exists>s5. ImportPage env s4 1 ''/MediaBox'' = Inr ((2, None), s5)"
    if "sourceFile (importer s4) = ''B.pdf''"
      "writers (importer s4) = [''A.pdf'' \<mapsto> Ref 1, ''B.pdf'' \<mapsto> Ref 2]"
      "tplN (importer s4) = 2"
      "importedPages (importer s4) = [''A.pdf-0001'' \<mapsto> 0, ''A.pdf-0002'' \<mapsto> 1]"
      "length (writer_heap s4) = 3"
      "import_err env s4 1 ''/MediaBox'' = None" for s4
    using ImportPage_new [of s4 1 2 env "''/MediaBox''"] that by (auto simp: key_B1)
  have second: "\<exists>s3 s4. ImportPage env s2 2 ''/MediaBox'' = Inr ((1, None), s3) \<and>
       SetSourceFile env s3 ''B.pdf'' = (None, s4) \<and>
       (import_err env s4 1 ''/MediaBox'' = None \<longrightarrow>
         (\<exists>s5. ImportPage env s4 1 ''/MediaBox'' = Inr ((2, None), s5)))"
    if i2: "sourceFile (importer s2) = ''A.pdf''" "readers (importer s2) = [''A.pdf'' \<mapsto> Ref 0]"
      "writers (importer s2) = [''A.pdf'' \<mapsto> Ref 1]" "tplN (importer s2) = 1"
      "importedPages (importer s2) = [''A.pdf-0001'' \<mapsto> 0]"
    and h2: "length (writer_heap s2) = 2"
    and e2: "import_err env s2 2 ''/MediaBox'' = None" for s2
  proof -
    obtain s3 where m3: "ImportPage env s2 2 ''/MediaBox'' = Inr ((1, None), s3)"
      and i3: "sourceFile (importer s3) = ''A.pdf''" "readers (importer s3) = [''A.pdf'' \<mapsto> Ref 0]"
        "writers (importer s3) = [''A.pdf'' \<mapsto> Ref 1]" "tplN (importer s3) = 2"
        "importedPages (importer s3) = [''A.pdf-0001'' \<mapsto> 0, ''A.pdf-0002'' \<mapsto> 1]"
      and h3: "length (writer_heap s3) = 2"
      using ImportPage_new [of s2 2 1 env "''/MediaBox''"] e2
      by (auto simp: i2 h2 key_A2 incr_small)
    obtain s4 where b4: "SetSourceFile env s3 ''B.pdf'' = (None, s4)"
      and i4: "sourceFile (importer s4) = ''B.pdf''"
        "writers (importer s4) = [''A.pdf'' \<mapsto> Ref 1, ''B.pdf'' \<mapsto> Ref 2]" "tplN (importer s4) = 2"
        "importedPages (importer s4) = [''A.pdf-0001'' \<mapsto> 0, ''A.pdf-0002'' \<mapsto> 1]"
      and h4: "length (writer_heap s4) = 3"
      using SetSourceFile_new [of s3 "''B.pdf''" env rB w0] rB w0 by (simp add: i3 h3)
    have t: "import_err env s4 1 ''/MediaBox'' = None \<longrightarrow>
         (\<exists>s5. ImportPage env s4 1 ''/MediaBox'' = Inr ((2, None), s5))"
      by (rule impI) (rule third [OF i4 h4])
    show ?thesis
      by (rule exI [of _ s3], rule exI [of _ s4]) (intro conjI m3 b4 t)
  qed
  have first: "\<exists>s2. ImportPage env s1 1 ''/MediaBox'' = Inr ((0, None), s2) \<and>
       ImportPage env s2 1 ''/MediaBox'' = Inr ((0, None), s2) \<and>
       (import_err env s2 2 ''/MediaBox'' = None \<longrightarrow>
         (\<exists>s3 s4. ImportPage env s2 2 ''/MediaBox'' = Inr ((1, None), s3) \<and>
            SetSourceFile env s3 ''B.pdf'' = (None, s4) \<and>
            (import_err env s4 1 ''/MediaBox'' = None \<longrightarrow>
              (\<exists>s5. ImportPage env s4 1 ''/MediaBox'' = Inr ((2, None), s5)))))"
    if e1: "import_err env s1 1 ''/MediaBox'' = None"
  proof -
    obtain s2 where m2: "ImportPage env s1 1 ''/MediaBox'' = Inr ((0, None), s2)"
      and i2: "sourceFile (importer s2) = ''A.pdf''" "readers (importer s2) = [''A.pdf'' \<mapsto> Ref 0]"
        "writers (importer s2) = [''A.pdf'' \<mapsto> Ref 1]" "tplN (importer s2) = 1"
        "importedPages (importer s2) = [''A.pdf-0001'' \<mapsto> 0]"
      and h2: "length (writer_heap s2) = 2"
      using ImportPage_new [of s1 1 1 env "''/MediaBox''"] e1
      by (auto simp: i1 h1 key_A1 incr_small)
    have m2': "ImportPage env s2 1 ''/MediaBox'' = Inr ((0, None), s2)"
      by (rule ImportPage_cached) (simp add: i2 key_A1)
    have t: "import_err env s2 2 ''/MediaBox'' = None \<longrightarrow>
         (\<exists>s3 s4. ImportPage env s2 2 ''/MediaBox'' = Inr ((1, None), s3) \<and>
            SetSourceFile env s3 ''B.pdf'' = (None, s4) \<and>
            (import_err env s4 1 ''/MediaBox'' = None \<longrightarrow>
              (\<exists>s5. ImportPage env s4 1 ''/MediaBox'' = Inr ((2, None), s5))))"
      by (rule impI) (rule second [OF i2 h2])
    show ?thesis
      by (rule exI [of _ s2]) (intro conjI m2 m2' t)
  qed
  have t: "import_err env s1 1 ''/MediaBox'' = None \<longrightarrow>
       (\<exists>s2. ImportPage env s1 1 ''/MediaBox'' = Inr ((0, None), s2) \<and>
          ImportPage env s2 1 ''/MediaBox'' = Inr ((0, None), s2) \<and>
          (import_err env s2 2 ''/MediaBox'' = None \<longrightarrow>
            (\<exists>s3 s4. ImportPage env s2 2 ''/MediaBox'' = Inr ((1, None), s3) \<and>
               SetSourceFile env s3 ''B.pdf'' = (None, s4) \<and>
               (import_err env s4 1 ''/MediaBox'' = None \<longrightarrow>
                 (\<exists>s5. ImportPage env s4 1 ''/MediaBox'' = Inr ((2, None), s5))))))"
    by (rule impI) (rule first)
  show ?thesis
    by (rule exI [of _ s1]) (intro conjI b1 [unfolded s0_def] t)
qed

theorem scenario_template_ids_witness:
  "NewPdfReader example_env ''A.pdf'' = Inr 3 \<and>
   NewPdfReader example_env ''B.pdf'' = Inr 1 \<and>
   NewPdfWriter example_env [] = Inr \<lparr>tpl_id_offset = 0, use_hash = False, rest = 0\<rparr> \<and>
   SetSourceFile example_env (NewImporter example_env) ''A.pdf'' = (None, bound_A) \<and>
   import_err example_env bound_A 1 ''/MediaBox'' = None \<and>
   ImportPage example_env bound_A 1 ''/MediaBox'' = Inr ((0, None), imported_A1) \<and>
   ImportPage example_env imported_A1 1 ''/MediaBox'' = Inr ((0, None), imported_A1) \<and>
   import_err example_env imported_A1 2 ''/MediaBox'' = None \<and>
   (\<exists>s3 s4 s5. ImportPage example_env imported_A1 2 ''/MediaBox'' = Inr ((1, None), s3) \<and>
      SetSourceFile example_env s3 ''B.pdf'' = (None, s4) \<and>
      import_err example_env s4 1 ''/MediaBox'' = None \<and>
      ImportPage example_env s4 1 ''/MediaBox'' = Inr ((2, None), s5))"
proof -
  have a: "NewPdfReader example_env ''A.pdf'' = Inr 3"
    and b: "NewPdfReader example_env ''B.pdf'' = Inr 1"
    and w: "NewPdfWriter example_env [] = Inr \<lparr>tpl_id_offset = 0, use_hash = False, rest = 0\<rparr>"
    by (simp_all add: example_env_def)
  define S3 where
    "S3 = (case ImportPage example_env imported_A1 2 ''/MediaBox'' of
             Inr (r, s) \<Rightarrow> s | Inl f \<Rightarrow> imported_A1)"
  define S4 where "S4 = snd (SetSourceFile example_env S3 ''B.pdf'')"
  have e2: "import_err example_env imported_A1 2 ''/MediaBox'' = None"
    by (simp add: imported_A1_eq eval_defs)
  have m3: "ImportPage example_env imported_A1 2 ''/MediaBox'' = Inr ((1, None), S3)"
    by (simp add: S3_def imported_A1_eq eval_defs incr_def max_int_def)
  have b4: "SetSourceFile example_env S3 ''B.pdf'' = (None, S4)"
    by (simp add: S4_def S3_def imported_A1_eq eval_defs incr_def max_int_def)
  have e4: "import_err example_env S4 1 ''/MediaBox'' = None"
    by (simp add: S4_def S3_def imported_A1_eq eval_defs incr_def max_int_def numeral_2_eq_2)
  obtain s1 where 1: "SetSourceFile example_env (NewImporter example_env) ''A.pdf'' = (None, s1)"
    and 2: "import_err example_env s1 1 ''/MediaBox'' = None \<longrightarrow>
             (\<exists>s2. ImportPage example_env s1 1 ''/MediaBox'' = Inr ((0, None), s2) \<and>
                ImportPage example_env s2 1 ''/MediaBox'' = Inr ((0, None), s2) \<and>
                (import_err example_env s2 2 ''/MediaBox'' = None \<longrightarrow>
                  (\<exists>s3 s4. ImportPage example_env s2 2 ''/MediaBox'' = Inr ((1, None), s3) \<and>
                     SetSourceFile example_env s3 ''B.pdf'' = (None, s4) \<and>
                     (import_err example_env s4 1 ''/MediaBox'' = None \<longrightarrow>
                       (\<exists>s5. ImportPage example_env s4 1 ''/MediaBox'' = Inr ((2, None), s5))))))"
    using scenario_template_ids [OF a b w] by (elim exE conjE)
  have s1: "s1 = bound_A"
    using 1 SetSourceFile_A by simp
  obtain s2 where 3: "ImportPage example_env bound_A 1 ''/MediaBox'' = Inr ((0, None), s2)"
    and 4: "ImportPage example_env s2 1 ''/MediaBox'' = Inr ((0, None), s2)"
    and 5: "import_err example_env s2 2 ''/MediaBox'' = None \<longrightarrow>
                  (\<exists>s3 s4. ImportPage example_env s2 2 ''/MediaBox'' = Inr ((1, None), s3) \<and>
                     SetSourceFile example_env s3 ''B.pdf'' = (None, s4) \<and>
                     (import_err example_env s4 1 ''/MediaBox'' = None \<longrightarrow>
                       (\<exists>s5. ImportPage example_env s4 1 ''/MediaBox'' = Inr ((2, None), s5))))"
    using mp [OF 2 [unfolded s1] import_err_bound_A_1] by (elim exE conjE)
  have s2: "s2 = imported_A1"
    using 3 ImportPage_bound_A_1 by simp
  obtain s3 s4 where 6: "ImportPage example_env imported_A1 2 ''/MediaBox'' = Inr ((1, None), s3)"
    and 7: "SetSourceFile example_env s3 ''B.pdf'' = (None, s4)"
    and 8: "import_err example_env s4 1 ''/MediaBox'' = None \<longrightarrow>
                       (\<exists>s5. ImportPage example_env s4 1 ''/MediaBox'' = Inr ((2, None), s5))"
    using mp [OF 5 [unfolded s2] e2] by (elim exE conjE)
  have s3: "s3 = S3"
    using 6 m3 by simp
  have s4: "s4 = S4"
    using 7 b4 unfolding s3 by simp
  obtain s5 where 9: "ImportPage example_env S4 1 ''/MediaBox'' = Inr ((2, None), s5)"
    using mp [OF 8 [unfolded s4] e4] by (elim exE)
  have last: "\<exists>s3 s4 s5. ImportPage example_env imported_A1 2 ''/MediaBox'' = Inr ((1, None), s3) \<and>
      SetSourceFile example_env s3 ''B.pdf'' = (None, s4) \<and>
      import_err example_env s4 1 ''/MediaBox'' = None \<and>
      ImportPage example_env s4 1 ''/MediaBox'' = Inr ((2, None), s5)"
    by (rule exI [of _ S3], rule exI [of _ S4], rule exI [of _ s5]) (intro conjI m3 b4 e4 9)
  show ?thesis
    by (intro conjI a b w SetSourceFile_A import_err_bound_A_1 ImportPage_bound_A_1
        4 [unfolded s2] e2 last)
qed

section \<open>The hash switch\<close>

lemma PutFormXobjectsUnordered_runs_hashed:
  assumes "GetWriter (importer s) = Ref a" and "PutFormXobjectsUnordered env s = Inr (r, s1)"
  shows "\<exists>w. deref (writer_heap s) (Ref a) = Some w \<and>
           snd r = snd (fst (PdfWriter_PutFormXobjects env (w\<lparr>use_hash := True\<rparr>)
                              (deref (reader_heap s) (GetReader (importer s))))) \<and>
           a < length (writer_heap s1) \<and>
           writer_heap s1 ! a =
             fst (snd (PdfWriter_PutFormXobjects env (w\<lparr>use_hash := True\<rparr>)
                         (deref (reader_heap s) (GetReader (importer s)))))"
  using assms
  by (auto simp: PutFormXobjectsUnordered_def call_PutFormXobjects_def SetUseHash_def Let_def
      split_beta deref_def assign_def assign_opt_def
      split: option.splits sum.splits if_splits)

lemma PutFormXobjects_runs_on:
  assumes "GetWriter (importer s) = Ref a" and "deref (writer_heap s) (Ref a) = Some w"
  shows "\<exists>r s1. PutFormXobjects env s = Inr (r, s1) \<and>
           snd r = snd (fst (PdfWriter_PutFormXobjects env w
                              (deref (reader_heap s) (GetReader (importer s))))) \<and>
           writer_heap s1 ! a =
             fst (snd (PdfWriter_PutFormXobjects env w
                         (deref (reader_heap s) (GetReader (importer s)))))"
  using assms
  by (auto simp: PutFormXobjects_def call_PutFormXobjects_def Let_def
      split_beta deref_def assign_def assign_opt_def
      split: option.splits sum.splits if_splits)

text \<open>
  C10. \<^verbatim>\<open>PutFormXobjectsUnordered\<close> sets the hash switch of the active Writer before
  it exports: the export it runs is the Writer's export on the Writer with the switch on.
  No call of the Importer turns the switch off again (given that the Writer's own methods
  leave it alone): after any further calls the switch of that Writer is still on, and a
  \<^verbatim>\<open>PutFormXobjects\<close> through that Writer runs the Writer's export with the switch on,
  and leaves it on.
\<close>

theorem use_hash_stays_on:
  assumes "keeps_use_hash env"
    and "GetWriter (importer s) = Ref a"
    and "PutFormXobjectsUnordered env s = Inr (r, s1)"
    and "run env s1 cs = Inr s2"
    and "GetWriter (importer s2) = Ref a"
  shows "\<exists>w w2 r2 s3.
           deref (writer_heap s) (Ref a) = Some w \<and>
           snd r = snd (fst (PdfWriter_PutFormXobjects env (w\<lparr>use_hash := True\<rparr>)
                              (deref (reader_heap s) (GetReader (importer s))))) \<and>
           writer_heap s1 ! a =
             fst (snd (PdfWriter_PutFormXobjects env (w\<lparr>use_hash := True\<rparr>)
                         (deref (reader_heap s) (GetReader (importer s))))) \<and>
           hash_on (writer_heap s1) a \<and>
           deref (writer_heap s2) (Ref a) = Some w2 \<and> use_hash w2 \<and>
           PutFormXobjects env s2 = Inr (r2, s3) \<and>
           snd r2 = snd (fst (PdfWriter_PutFormXobjects env w2
                               (deref (reader_heap s2) (GetReader (importer s2))))) \<and>
           writer_heap s3 ! a =
             fst (snd (PdfWriter_PutFormXobjects env w2
                         (deref (reader_heap s2) (GetReader (importer s2))))) \<and>
           hash_on (writer_heap s3) a"
proof -
  obtain w where w: "deref (writer_heap s) (Ref a) = Some w"
    and r: "snd r = snd (fst (PdfWriter_PutFormXobjects env (w\<lparr>use_hash := True\<rparr>)
                              (deref (reader_heap s) (GetReader (importer s)))))"
    and l: "a < length (writer_heap s1)"
    and n: "writer_heap s1 ! a =
             fst (snd (PdfWriter_PutFormXobjects env (w\<lparr>use_hash := True\<rparr>)
                         (deref (reader_heap s) (GetReader (importer s)))))"
    using PutFormXobjectsUnordered_runs_hashed [OF assms(2,3)] by blast
  have "use_hash (fst (snd (PdfWriter_PutFormXobjects env (w\<lparr>use_hash := True\<rparr>)
                         (deref (reader_heap s) (GetReader (importer s))))))"
    using assms(1) by (simp add: keeps_use_hash_def)
  then have h1: "hash_on (writer_heap s1) a"
    using l n by (simp add: hash_on_def)
  have h2: "hash_on (writer_heap s2) a"
    by (rule run_hash_on [OF assms(1,4) h1])
  then obtain w2 where w2: "deref (writer_heap s2) (Ref a) = Some w2" "use_hash w2"
    by (auto simp: hash_on_def deref_def)
  obtain r2 s3 where p: "PutFormXobjects env s2 = Inr (r2, s3)"
    and r2: "snd r2 = snd (fst (PdfWriter_PutFormXobjects env w2
                               (deref (reader_heap s2) (GetReader (importer s2)))))"
    and n3: "writer_heap s3 ! a =
             fst (snd (PdfWriter_PutFormXobjects env w2
                         (deref (reader_heap s2) (GetReader (importer s2)))))"
    using PutFormXobjects_runs_on [OF assms(5) w2(1)] by blast
  have "exec env s2 CallPutFormXobjects = Inr s3"
    using p by simp
  then have h3: "hash_on (writer_heap s3) a"
    using exec_hash_on [OF assms(1) _ h2] by blast
  show ?thesis
    using w r n h1 w2 p r2 n3 h3 by blast
qed

theorem use_hash_stays_on_witness:
  "keeps_use_hash example_env \<and>
   GetWriter (importer bound_A) = Ref 1 \<and>
   (\<exists>r s1 s2 r2 s3.
      PutFormXobjectsUnordered example_env bound_A = Inr (r, s1) \<and>
      run example_env s1
        [CallImportPage 1 ''/MediaBox'', CallSetNextObjectID 5, CallUseTemplate 0 1 2 3 4] = Inr s2 \<and>
      GetWriter (importer s2) = Ref 1 \<and>
      hash_on (writer_heap s1) 1 \<and>
      (\<exists>w2. deref (writer_heap s2) (Ref 1) = Some w2 \<and> use_hash w2) \<and>
      PutFormXobjects example_env s2 = Inr (r2, s3) \<and>
      hash_on (writer_heap s3) 1)"
proof -
  define s1 :: "(nat, nat) World" where
    "s1 = bound_A\<lparr>writer_heap := [\<lparr>tpl_id_offset = 0, use_hash = False, rest = 0\<rparr>,
                                   \<lparr>tpl_id_offset = 0, use_hash = True, rest = 0\<rparr>]\<rparr>"
  define s2 :: "(nat, nat) World" where
    "s2 = imported_A1\<lparr>writer_heap := [\<lparr>tpl_id_offset = 0, use_hash = False, rest = 0\<rparr>,
                                       \<lparr>tpl_id_offset = 0, use_hash = True, rest = 1\<rparr>]\<rparr>"
  have g: "GetWriter (importer bound_A) = Ref 1"
    by (simp add: bound_A_eq eval_defs)
  have p: "PutFormXobjectsUnordered example_env bound_A = Inr ((Some Map.empty, None), s1)"
    by (simp add: s1_def bound_A_eq eval_defs)
  have r: "run example_env s1
        [CallImportPage 1 ''/MediaBox'', CallSetNextObjectID 5, CallUseTemplate 0 1 2 3 4] = Inr s2"
    by (simp add: s1_def s2_def imported_A1_eq bound_A_eq eval_defs incr_def max_int_def)
  have g2: "GetWriter (importer s2) = Ref 1"
    by (simp add: s2_def imported_A1_eq eval_defs)
  show ?thesis
    using use_hash_stays_on [OF keeps_use_hash_example g p r g2] keeps_use_hash_example g p r g2
    by blast
qed

section \<open>Template ids across documents\<close>




end
